theory Spec2Isabelle
  imports Complex_Main
begin

section \<open>The Callendar--Van Dusen calculator of cvd.py\<close>

text \<open>
  The program holds the three coefficients of the Callendar--Van Dusen polynomial for a
  calibration standard and inverts the polynomial with a symbolic equation solver.

  Python floats are modelled by \<^typ>\<open>real\<close>: a float literal stands for the decimal
  number it is written as, and arithmetic is exact. Rounding is outside of this model.
\<close>

subsection \<open>Errors\<close>

text \<open>
  The exceptions of the program: the \<^verbatim>\<open>ValueError\<close> of the constructor, with its
  message, the \<^verbatim>\<open>IndexError\<close> of the list access \<^verbatim>\<open>s[1]\<close> in \<^verbatim>\<open>temperature\<close>, and the
  \<^verbatim>\<open>TypeError\<close> of formatting a number that is not real with \<^verbatim>\<open>%g\<close>.
\<close>

datatype error = ValueError string | IndexError | TypeError

subsection \<open>The class and its constructor\<close>

text \<open>
  An instance stores the coefficients \<^verbatim>\<open>A\<close>, \<^verbatim>\<open>B\<close> and \<^verbatim>\<open>C\<close>. (It also stores the two
  symbols \<^verbatim>\<open>r\<close> and \<^verbatim>\<open>t\<close>, which are the same in every instance; the subzero flag is
  not stored.)
\<close>

record CallendarVanDusen =
  A :: real
  B :: real
  C :: real

text \<open>
  \<^verbatim>\<open>__init__(self, standard="DIN43760", subzero=False)\<close>: the chain of comparisons of
  the standard's name, in the order of the source, each with its test of the flag; the
  last branch raises.
\<close>

definition init :: "string \<Rightarrow> bool \<Rightarrow> error + CallendarVanDusen" where
  "init standard subzero =
     (if standard = ''DIN43760'' then
        Inr \<lparr>A = 39080 / 10 ^ 7, B = - 58019 / 10 ^ 11,
             C = (if subzero then - 42735 / 10 ^ 16 else 0)\<rparr>
      else if standard = ''American'' then
        Inr \<lparr>A = 39692 / 10 ^ 7, B = - 58495 / 10 ^ 11,
             C = (if subzero then - 42325 / 10 ^ 16 else 0)\<rparr>
      else if standard = ''ITS-90'' then
        Inr \<lparr>A = 39848 / 10 ^ 7, B = - 5870 / 10 ^ 10,
             C = (if subzero then - 40000 / 10 ^ 16 else 0)\<rparr>
      else Inl (ValueError (''Unknown standard '' @ standard)))"

text \<open>The defaults of the constructor's keyword arguments.\<close>

definition default_standard :: string where
  "default_standard = ''DIN43760''"

definition default_subzero :: bool where
  "default_subzero = False"

subsection \<open>The equation and the solver\<close>

text \<open>
  \<^verbatim>\<open>temperature\<close> builds the equation
  \<^verbatim>\<open>Eq(r, r0*(1.0 + A*t + B*t**2 + C*(t-100.0)**3))\<close> between the symbols \<open>r\<close> and \<open>t\<close>.
  The equation is determined by the four numbers in it.
\<close>

datatype equation = Eq real real real real

text \<open>The right-hand side at a (complex) value of the symbol \<open>t\<close>.\<close>

fun rhs :: "equation \<Rightarrow> complex \<Rightarrow> complex" where
  "rhs (Eq r0 a b c) t =
     of_real r0 * (1 + of_real a * t + of_real b * t ^ 2 + of_real c * (t - 100) ^ 3)"

text \<open>The equation holds for the resistance \<open>r\<close> and the temperature \<open>t\<close>.\<close>

definition holds :: "equation \<Rightarrow> real \<Rightarrow> complex \<Rightarrow> bool" where
  "holds e r t \<longleftrightarrow> of_real r = rhs e t"

text \<open>
  The forward polynomial on real temperatures: the resistance at temperature \<open>t\<close>.
\<close>

definition resistance :: "CallendarVanDusen \<Rightarrow> real \<Rightarrow> real \<Rightarrow> real" where
  "resistance self r0 t = r0 * (1 + A self * t + B self * t ^ 2 + C self * (t - 100) ^ 3)"

text \<open>
  \<^verbatim>\<open>solve(cvd, self.t)\<close> is sympy's symbolic solver. It returns a list of expressions
  in the symbol \<open>r\<close>, one for each solution in \<open>t\<close>; an expression is modelled by its
  value (a complex number) for each real value substituted for \<open>r\<close>, so that
  \<^verbatim>\<open>e.subs(self.r, r_measured)\<close> is function application. The solver is not part of
  the program and is a parameter of the model.
\<close>

type_synonym solution = "real \<Rightarrow> complex"

type_synonym solver = "equation \<Rightarrow> solution list"

text \<open>
  What is assumed of a solver: each expression it returns solves the equation, whatever
  is substituted for \<open>r\<close>. Nothing is assumed on the order of the list.
\<close>

definition solver_sound :: "solver \<Rightarrow> bool" where
  "solver_sound solve \<longleftrightarrow> (\<forall>e. \<forall>g \<in> set (solve e). \<forall>r. holds e r (g r))"

subsection \<open>The operation temperature\<close>

text \<open>
  \<^verbatim>\<open>temperature(self, r0, r_measured)\<close>: build the equation, solve it for \<open>t\<close>, take the
  element at index 1 of the list of solutions and substitute \<open>r_measured\<close> for \<open>r\<close>.
  Python raises \<^verbatim>\<open>IndexError\<close> when the list has fewer than two elements. There is no
  other check in the function.
\<close>

definition temperature :: "solver \<Rightarrow> CallendarVanDusen \<Rightarrow> real \<Rightarrow> real \<Rightarrow> error + complex" where
  "temperature solve self r0 r_measured =
     (let cvd = Eq r0 (A self) (B self) (C self);
          s = solve cvd
      in if 1 < length s then Inr ((s ! 1) r_measured) else Inl IndexError)"

subsection \<open>A solver by closed forms\<close>

text \<open>
  A solver that satisfies the contract, by the closed forms of the roots of the
  polynomial \<open>p3 t\<^sup>3 + p2 t\<^sup>2 + p1 t + p0 - r\<close> obtained by expanding the right-hand side:
  Cardano's formula for degree 3, the quadratic formula for degree 2, a division for
  degree 1, and no solution when \<open>t\<close> does not occur. It serves to evaluate the program
  on concrete inputs.
\<close>

definition quadratic_root :: "complex \<Rightarrow> complex \<Rightarrow> complex \<Rightarrow> complex \<Rightarrow> complex" where
  "quadratic_root sg a b c = (- b + sg * csqrt (b ^ 2 - 4 * a * c)) / (2 * a)"

definition ccbrt :: "complex \<Rightarrow> complex" where
  "ccbrt z = rcis (root 3 (cmod z)) (Arg z / 3)"

definition omega :: complex where
  "omega = Complex (- 1 / 2) (sqrt 3 / 2)"

definition cubic_root :: "nat \<Rightarrow> complex \<Rightarrow> complex \<Rightarrow> complex \<Rightarrow> complex \<Rightarrow> complex" where
  "cubic_root k a b c d =
     (let D0 = b ^ 2 - 3 * a * c;
          D1 = 2 * b ^ 3 - 9 * a * b * c + 27 * a ^ 2 * d;
          s = csqrt (D1 ^ 2 - 4 * D0 ^ 3);
          u = omega ^ k * ccbrt ((if D1 + s = 0 then D1 - s else D1 + s) / 2)
      in if u = 0 then - b / (3 * a) else - (b + u + D0 / u) / (3 * a))"

fun closed_form :: solver where
  "closed_form (Eq r0 a b c) =
     (let p3 = r0 * c;
          p2 = r0 * (b - 300 * c);
          p1 = r0 * (a + 30000 * c);
          p0 = r0 * (1 - 1000000 * c)
      in if p3 \<noteq> 0 then
           [\<lambda>r. cubic_root 0 (of_real p3) (of_real p2) (of_real p1) (of_real (p0 - r)),
            \<lambda>r. cubic_root 1 (of_real p3) (of_real p2) (of_real p1) (of_real (p0 - r)),
            \<lambda>r. cubic_root 2 (of_real p3) (of_real p2) (of_real p1) (of_real (p0 - r))]
         else if p2 \<noteq> 0 then
           [\<lambda>r. quadratic_root (- 1) (of_real p2) (of_real p1) (of_real (p0 - r)),
            \<lambda>r. quadratic_root 1 (of_real p2) (of_real p1) (of_real (p0 - r))]
         else if p1 \<noteq> 0 then [\<lambda>r. of_real ((r - p0) / p1)]
         else [])"

text \<open>The same solutions, listed in the opposite order.\<close>

definition closed_form_rev :: solver where
  "closed_form_rev e = rev (closed_form e)"

text \<open>
  The order of the answer of the program's solver, which is not part of the repository.
  For the quadratic in \<open>t\<close> that the equation is when \<open>C = 0\<close>, sympy lists the root with
  the square root subtracted first and the one with it added second:
  \<open>- p1 / (2 p2) - sqrt d / (2 \<bar>p2\<bar>)\<close>, then \<open>- p1 / (2 p2) + sqrt d / (2 \<bar>p2\<bar>)\<close>. The element at
  index 1 is then the larger root where the roots are real. That is the order of
  \<open>closed_form\<close> when the leading coefficient \<open>p2\<close> is positive and the opposite order
  when it is negative. With this order the script prints 6885.91 and the reading
  \<open>r0 = -500\<close>, \<open>r_measured = 200\<close> gives 7076.70 (lemmas \<open>main_sympy_solve\<close> and
  \<open>negative_r0_value\<close>). For the cubic (\<open>C \<noteq> 0\<close>) the order of \<open>closed_form\<close> is kept;
  no statement below is about that case.
\<close>

fun sympy_solve :: solver where
  "sympy_solve (Eq r0 a b c) =
     (if r0 * c = 0 \<and> r0 * (b - 300 * c) < 0 then closed_form_rev (Eq r0 a b c)
      else closed_form (Eq r0 a b c))"

subsection \<open>Formatting with \<^verbatim>\<open>%g\<close>\<close>

text \<open>
  \<^verbatim>\<open>"%g" % x\<close>: six significant digits, trailing zeros removed (and the point with
  them), in positional notation when the decimal exponent \<open>X\<close> of the rounded number
  satisfies \<open>-4 \<le> X < 6\<close> and in exponent notation otherwise.
\<close>

definition round_half_even :: "real \<Rightarrow> int" where
  "round_half_even x =
     (let f = \<lfloor>x\<rfloor>; d = x - of_int f
      in if d < 1 / 2 then f else if 1 / 2 < d then f + 1 else if even f then f else f + 1)"

definition digit :: "nat \<Rightarrow> char" where
  "digit d = ''0123456789'' ! d"

text \<open>The last \<open>k\<close> decimal digits of \<open>n\<close>.\<close>

fun decimal :: "nat \<Rightarrow> nat \<Rightarrow> string" where
  "decimal 0 n = []"
| "decimal (Suc k) n = decimal k (n div 10) @ [digit (n mod 10)]"

definition strip_zeros :: "string \<Rightarrow> string" where
  "strip_zeros s = rev (dropWhile (\<lambda>c. c = CHR ''0'') (rev s))"

text \<open>An integer part and a fraction, whose trailing zeros are removed.\<close>

definition point :: "string \<Rightarrow> string \<Rightarrow> string" where
  "point i f = (let f' = strip_zeros f in if f' = [] then i else i @ ''.'' @ f')"

text \<open>
  The exponent is written with two digits at least; three suffice for every float.
\<close>

definition fmt_g :: "real \<Rightarrow> string" where
  "fmt_g x =
     (if x = 0 then ''0''
      else
        let e0 = \<lfloor>log 10 \<bar>x\<bar>\<rfloor>;
            n0 = round_half_even (\<bar>x\<bar> / 10 powi (e0 - 5));
            X = (if 10 ^ 6 \<le> n0 then e0 + 1 else e0);
            digits = decimal 6 (nat (if 10 ^ 6 \<le> n0 then 10 ^ 5 else n0));
            sign = (if x < 0 then ''-'' else [])
        in sign @
           (if X < - 4 \<or> 6 \<le> X then
              point (take 1 digits) (drop 1 digits) @ ''e'' @ (if X < 0 then ''-'' else ''+'') @
              (let ex = nat \<bar>X\<bar> in decimal (if ex < 100 then 2 else 3) ex)
            else if X < 0 then
              ''0.'' @ replicate (nat (- X - 1)) (CHR ''0'') @ strip_zeros digits
            else point (take (nat X + 1) digits) (drop (nat X + 1) digits)))"

subsection \<open>The script\<close>

text \<open>
  The statements at the end of the module: construct the model with the defaults,
  evaluate the reading \<^verbatim>\<open>r0=500.0\<close>, \<^verbatim>\<open>r_measured=200.0\<close> and print two lines. The result
  is the list of the lines printed and the exception that ended the run, if any.
  \<^verbatim>\<open>"%g" % t\<close> raises when \<open>t\<close> is not real; the first line is printed by then.
\<close>

definition main :: "solver \<Rightarrow> string list \<times> error option" where
  "main solve =
     (case init default_standard default_subzero of
        Inl e \<Rightarrow> ([], Some e)
      | Inr cvd \<Rightarrow>
          (let r_measured = 200 in
           case temperature solve cvd 500 r_measured of
             Inl e \<Rightarrow> ([], Some e)
           | Inr t \<Rightarrow>
               (let out = [''Resistance = '' @ fmt_g r_measured] in
                if t \<in> \<real> then (out @ [''Temperature = '' @ fmt_g (Re t)], None)
                else (out, Some TypeError))))"

text \<open>The instance \<^verbatim>\<open>cvd = CallendarVanDusen()\<close> of the script.\<close>

definition cvd :: CallendarVanDusen where
  "cvd = \<lparr>A = 39080 / 10 ^ 7, B = - 58019 / 10 ^ 11, C = 0\<rparr>"

text \<open>
  Whether the equation has a real solution in the rated range of the device, from
  -200 to 850 degrees, at the resistance \<open>r\<close>.
\<close>

definition real_root_in_range :: "equation \<Rightarrow> real \<Rightarrow> bool" where
  "real_root_in_range e r \<longleftrightarrow> (\<exists>t::real. - 200 \<le> t \<and> t \<le> 850 \<and> holds e r (of_real t))"

text \<open>
  The discriminant of the quadratic in \<open>t\<close> that the equation is when \<open>C = 0\<close>.
\<close>

definition discriminant :: "CallendarVanDusen \<Rightarrow> real \<Rightarrow> real \<Rightarrow> real" where
  "discriminant self r0 r = (r0 * A self) ^ 2 - 4 * (r0 * B self) * (r0 - r)"

section \<open>Facts about the model\<close>

text \<open>The script's instance is what the constructor returns for the defaults.\<close>

lemma cvd_init: "init default_standard default_subzero = Inr cvd"
  by (simp add: init_def default_standard_def default_subzero_def cvd_def)

subsection \<open>The closed forms solve the equation\<close>

text \<open>Cube roots, the quadratic formula and Cardano's formula.\<close>

lemma ccbrt_cube: "ccbrt z ^ 3 = z"
  by (simp add: ccbrt_def DeMoivre2 rcis_cmod_Arg)

lemma omega_cube: "omega ^ 3 = 1"
  by (simp add: omega_def power3_eq_cube complex_eq_iff algebra_simps)

lemma quadratic_root_sound:
  assumes "a \<noteq> 0" "sg ^ 2 = 1"
  shows "a * quadratic_root sg a b c ^ 2 + b * quadratic_root sg a b c + c = 0"
proof -
  define d where "d = csqrt (b ^ 2 - 4 * a * c)"
  have d2: "d ^ 2 = b ^ 2 - 4 * a * c" by (simp add: d_def)
  have "4 * a * (a * ((- b + sg * d) / (2 * a)) ^ 2 + b * ((- b + sg * d) / (2 * a)) + c)
        = sg ^ 2 * d ^ 2 - b ^ 2 + 4 * a * c"
    using assms(1) by (simp add: field_simps power2_eq_square)
  also have "\<dots> = 0" using d2 assms(2) by simp
  finally show ?thesis using assms(1) by (simp add: quadratic_root_def d_def)
qed

lemma cubic_root_sound:
  assumes "a \<noteq> 0"
  shows "a * cubic_root k a b c d ^ 3 + b * cubic_root k a b c d ^ 2
           + c * cubic_root k a b c d + d = 0"
proof -
  define D0 where "D0 = b ^ 2 - 3 * a * c"
  define D1 where "D1 = 2 * b ^ 3 - 9 * a * b * c + 27 * a ^ 2 * d"
  define s where "s = csqrt (D1 ^ 2 - 4 * D0 ^ 3)"
  define W where "W = (if D1 + s = 0 then D1 - s else D1 + s) / 2"
  define u where "u = omega ^ k * ccbrt W"
  define x where "x = (if u = 0 then 0 else u + D0 / u)"
  have s2: "s ^ 2 = D1 ^ 2 - 4 * D0 ^ 3" by (simp add: s_def)
  have W2: "W ^ 2 - D1 * W + D0 ^ 3 = 0"
  proof -
    have "4 * (W ^ 2 - D1 * W + D0 ^ 3) = s ^ 2 - D1 ^ 2 + 4 * D0 ^ 3"
      by (simp add: W_def power2_eq_square algebra_simps)
    also have "\<dots> = 0" using s2 by simp
    finally have "4 * (W ^ 2 - D1 * W + D0 ^ 3) = 0" .
    then show ?thesis by (metis mult_eq_0_iff zero_neq_numeral)
  qed
  have u3: "u ^ 3 = W"
  proof -
    have "u ^ 3 = (omega ^ 3) ^ k * ccbrt W ^ 3"
      by (simp add: u_def power_mult_distrib power_mult [symmetric] mult.commute)
    then show ?thesis by (simp add: omega_cube ccbrt_cube)
  qed
  have x3: "x ^ 3 = 3 * D0 * x + D1"
  proof (cases "u = 0")
    case True
    then have "W = 0" using u3 by simp
    then have "D0 ^ 3 = 0" using W2 by simp
    then have D00: "D0 = 0" by simp
    then have "s ^ 2 = D1 ^ 2" using s2 by simp
    then have "s = D1 \<or> s = - D1" by (simp add: power2_eq_iff)
    then have "D1 = 0" using \<open>W = 0\<close> by (auto simp: W_def split: if_splits)
    then show ?thesis using True D00 by (simp add: x_def)
  next
    case False
    have "u ^ 3 * (x ^ 3 - 3 * D0 * x - D1) = (u ^ 3) ^ 2 - D1 * u ^ 3 + D0 ^ 3"
      using False by (simp add: x_def field_simps power3_eq_cube power2_eq_square)
    also have "\<dots> = 0" using W2 u3 by simp
    finally have "x ^ 3 - 3 * D0 * x - D1 = 0" using False by simp
    then show ?thesis by (simp add: algebra_simps)
  qed
  have t: "cubic_root k a b c d = - (b + x) / (3 * a)"
    by (simp add: cubic_root_def Let_def x_def u_def W_def s_def D1_def D0_def)
  have "27 * a ^ 2 * (a * (- (b + x) / (3 * a)) ^ 3 + b * (- (b + x) / (3 * a)) ^ 2
          + c * (- (b + x) / (3 * a)) + d) = 3 * D0 * x + D1 - x ^ 3"
    using assms by (simp add: D0_def D1_def field_simps power3_eq_cube power2_eq_square)
  also have "\<dots> = 0" using x3 by simp
  finally show ?thesis using assms by (simp add: t)
qed

text \<open>The right-hand side, expanded in powers of \<open>t\<close>.\<close>

lemma rhs_expand:
  "rhs (Eq r0 a b c) t - of_real r =
     of_real (r0 * c) * t ^ 3 + of_real (r0 * (b - 300 * c)) * t ^ 2
       + of_real (r0 * (a + 30000 * c)) * t + of_real (r0 * (1 - 1000000 * c) - r)"
  by (simp add: algebra_simps power3_eq_cube power2_eq_square)

lemma holds_expand:
  "holds (Eq r0 a b c) r t \<longleftrightarrow>
     of_real (r0 * c) * t ^ 3 + of_real (r0 * (b - 300 * c)) * t ^ 2
       + of_real (r0 * (a + 30000 * c)) * t + of_real (r0 * (1 - 1000000 * c) - r) = 0"
proof -
  have "holds (Eq r0 a b c) r t \<longleftrightarrow> rhs (Eq r0 a b c) t - of_real r = 0"
    by (auto simp: holds_def)
  then show ?thesis by (simp only: rhs_expand)
qed

lemma closed_form_holds:
  assumes "g \<in> set (closed_form e)"
  shows "holds e r (g r)"
proof (cases e)
  case (Eq r0 a b c)
  define p3 where "p3 = r0 * c"
  define p2 where "p2 = r0 * (b - 300 * c)"
  define p1 where "p1 = r0 * (a + 30000 * c)"
  define p0 where "p0 = r0 * (1 - 1000000 * c)"
  have goal: "holds e r t \<longleftrightarrow>
      of_real p3 * t ^ 3 + of_real p2 * t ^ 2 + of_real p1 * t + of_real (p0 - r) = 0" for t
    unfolding Eq p3_def p2_def p1_def p0_def by (rule holds_expand)
  have cf: "closed_form e =
      (if p3 \<noteq> 0 then
         [\<lambda>r. cubic_root 0 (of_real p3) (of_real p2) (of_real p1) (of_real (p0 - r)),
          \<lambda>r. cubic_root 1 (of_real p3) (of_real p2) (of_real p1) (of_real (p0 - r)),
          \<lambda>r. cubic_root 2 (of_real p3) (of_real p2) (of_real p1) (of_real (p0 - r))]
       else if p2 \<noteq> 0 then
         [\<lambda>r. quadratic_root (- 1) (of_real p2) (of_real p1) (of_real (p0 - r)),
          \<lambda>r. quadratic_root 1 (of_real p2) (of_real p1) (of_real (p0 - r))]
       else if p1 \<noteq> 0 then [\<lambda>r. of_real ((r - p0) / p1)]
       else [])"
    unfolding Eq p3_def p2_def p1_def p0_def closed_form.simps Let_def by (rule refl)
  consider (cubic) "p3 \<noteq> 0" | (quadratic) "p3 = 0" "p2 \<noteq> 0"
    | (linear) "p3 = 0" "p2 = 0" "p1 \<noteq> 0" | (none) "p3 = 0" "p2 = 0" "p1 = 0"
    by blast
  then show ?thesis
  proof cases
    case cubic
    then obtain k where "g r = cubic_root k (of_real p3) (of_real p2) (of_real p1) (of_real (p0 - r))"
      using assms unfolding cf by auto
    then show ?thesis
      using cubic cubic_root_sound [of "of_real p3" k "of_real p2" "of_real p1" "of_real (p0 - r)"]
      by (simp add: goal)
  next
    case quadratic
    then have "g r = quadratic_root (- 1) (of_real p2) (of_real p1) (of_real (p0 - r))
        \<or> g r = quadratic_root 1 (of_real p2) (of_real p1) (of_real (p0 - r))"
      using assms unfolding cf by auto
    then obtain sg :: complex where "sg ^ 2 = 1"
      and "g r = quadratic_root sg (of_real p2) (of_real p1) (of_real (p0 - r))"
      by (metis power2_minus one_power2)
    then show ?thesis
      using quadratic quadratic_root_sound [of "of_real p2" sg "of_real p1" "of_real (p0 - r)"]
      by (simp add: goal)
  next
    case linear
    then have "g r = of_real ((r - p0) / p1)"
      using assms unfolding cf by auto
    then show ?thesis
      using linear by (simp add: goal)
  next
    case none
    then show ?thesis
      using assms unfolding cf by auto
  qed
qed

lemma closed_form_sound: "solver_sound closed_form"
  by (simp add: solver_sound_def closed_form_holds)

lemma closed_form_rev_sound: "solver_sound closed_form_rev"
  by (simp add: solver_sound_def closed_form_rev_def closed_form_holds)

subsection \<open>What temperature returns\<close>

text \<open>
  When the solver returns two solutions or more, \<^verbatim>\<open>temperature\<close> returns the second one
  at \<open>r_measured\<close>, which solves the equation there when the solver is sound. A sound
  solver finds no solution of the equation with \<open>r0 = 0\<close>, which does not hold for
  \<open>r = 1\<close>.
\<close>

lemma temperature_second:
  "1 < length (solve (Eq r0 (A self) (B self) (C self))) \<Longrightarrow>
   temperature solve self r0 r = Inr ((solve (Eq r0 (A self) (B self) (C self)) ! 1) r)"
  by (simp add: temperature_def)

lemma temperature_holds:
  assumes "solver_sound solve" "1 < length (solve (Eq r0 (A self) (B self) (C self)))"
  shows "holds (Eq r0 (A self) (B self) (C self)) r
           ((solve (Eq r0 (A self) (B self) (C self)) ! 1) r)"
  using assms by (simp add: solver_sound_def)

lemma sound_degenerate:
  assumes "solver_sound solve"
  shows "solve (Eq 0 a b c) = []"
proof (cases "solve (Eq 0 a b c)")
  case Nil
  then show ?thesis .
next
  case (Cons g gs)
  then have "holds (Eq 0 a b c) 1 (g 1)"
    using assms by (simp add: solver_sound_def)
  then show ?thesis by (simp add: holds_def)
qed

lemma init_B_nonzero:
  assumes "init standard subzero = Inr self"
  shows "B self - 300 * C self \<noteq> 0"
  using assms by (auto simp: init_def split: if_splits)

lemma closed_form_length:
  assumes "init standard subzero = Inr self" "r0 \<noteq> 0"
  shows "1 < length (closed_form (Eq r0 (A self) (B self) (C self)))"
  using init_B_nonzero [OF assms(1)] assms(2) by (simp add: Let_def)

lemma closed_form_rev_length:
  assumes "init standard subzero = Inr self" "r0 \<noteq> 0"
  shows "1 < length (closed_form_rev (Eq r0 (A self) (B self) (C self)))"
  using closed_form_length [OF assms] by (simp only: closed_form_rev_def length_rev)

lemma temperature_returns:
  "1 < length (solve (Eq r0 (A self) (B self) (C self))) \<Longrightarrow>
   \<not> isl (temperature solve self r0 r)"
  by (simp add: temperature_second)

lemma temperature_fails:
  "\<not> 1 < length (solve (Eq r0 (A self) (B self) (C self))) \<Longrightarrow>
   temperature solve self r0 r = Inl IndexError"
  by (simp add: temperature_def)

subsection \<open>Real solutions\<close>

text \<open>
  The equation at a real temperature, and the solutions of a quadratic with real
  coefficients and a discriminant that is not negative: they are real.
\<close>

lemma holds_real:
  "holds (Eq r0 a b c) r (of_real t) \<longleftrightarrow> r = r0 * (1 + a * t + b * t ^ 2 + c * (t - 100) ^ 3)"
proof -
  have "rhs (Eq r0 a b c) (of_real t) = of_real (r0 * (1 + a * t + b * t ^ 2 + c * (t - 100) ^ 3))"
    by simp
  then show ?thesis
    unfolding holds_def by (simp only: of_real_eq_iff)
qed

lemma holds_resistance:
  "holds (Eq r0 (A self) (B self) (C self)) r (of_real t) \<longleftrightarrow> r = resistance self r0 t"
  by (simp only: holds_real resistance_def)

lemma quadratic_real_roots:
  fixes a b c :: real and z :: complex
  assumes a: "a \<noteq> 0" and d: "0 \<le> b ^ 2 - 4 * a * c"
    and z: "of_real a * z ^ 2 + of_real b * z + of_real c = 0"
  shows "z \<in> \<real>"
proof -
  define w where "w = 2 * of_real a * z + of_real b"
  have "w ^ 2 = 4 * of_real a * (of_real a * z ^ 2 + of_real b * z + of_real c)
                  + of_real (b ^ 2 - 4 * a * c)"
    by (simp add: w_def power2_eq_square algebra_simps)
  then have w2: "w ^ 2 = of_real (b ^ 2 - 4 * a * c)"
    by (simp only: z) simp
  have re: "(Re w) ^ 2 - (Im w) ^ 2 = b ^ 2 - 4 * a * c"
    using arg_cong [OF w2, of Re] by (simp only: Re_power2 Re_complex_of_real)
  have im: "2 * Re w * Im w = 0"
    using arg_cong [OF w2, of Im] by (simp only: Im_power2 Im_complex_of_real)
  have "Im w = 0"
  proof (rule ccontr)
    assume n: "Im w \<noteq> 0"
    then have "Re w = 0" using im by simp
    then have "- ((Im w) ^ 2) = b ^ 2 - 4 * a * c" using re by simp
    moreover have "0 < (Im w) ^ 2" using n by simp
    ultimately show False using d by linarith
  qed
  then have "Im z = 0" using a by (simp add: w_def)
  then show ?thesis by (simp add: complex_is_Real_iff)
qed

lemma script_reading_real:
  assumes "holds (Eq 500 (A cvd) (B cvd) (C cvd)) 200 z"
  shows "z \<in> \<real>"
proof -
  have "of_real (500 * B cvd) * z ^ 2 + of_real (500 * A cvd) * z + of_real (500 - 200) = 0"
    using assms unfolding holds_expand by (simp add: cvd_def)
  moreover have "500 * B cvd \<noteq> 0" by (simp add: cvd_def)
  moreover have "0 \<le> (500 * A cvd) ^ 2 - 4 * (500 * B cvd) * (500 - 200)"
    by (simp add: cvd_def)
  ultimately show ?thesis by (rule quadratic_real_roots [rotated 2])
qed

lemma no_real_root_100_1000: "\<not> real_root_in_range (Eq 100 (A cvd) (B cvd) (C cvd)) 1000"
proof
  assume "real_root_in_range (Eq 100 (A cvd) (B cvd) (C cvd)) 1000"
  then obtain t :: real where "1000 = 100 * (1 + A cvd * t + B cvd * t ^ 2 + C cvd * (t - 100) ^ 3)"
    unfolding real_root_in_range_def holds_real by blast
  then have e: "58019 * t ^ 2 - 390800000 * t + 900000000000 = 0"
    by (simp add: cvd_def field_simps)
  have "0 \<le> (2 * 58019 * t - 390800000) ^ 2" by simp
  then have "0 \<le> 4 * 58019 * (58019 * t ^ 2 - 390800000 * t) + 390800000 ^ 2"
    by (simp add: power2_eq_square algebra_simps)
  then show False using e by simp
qed

subsection \<open>Formatting 200\<close>

text \<open>The decimal exponent of a number between two powers of ten.\<close>

lemma floor_log10:
  assumes x: "0 < x" and lo: "10 powi k \<le> x" and hi: "x < 10 powi (k + 1)"
  shows "\<lfloor>log 10 x\<rfloor> = k"
proof -
  have a: "(10::real) powr of_int k = 10 powi k"
    by (rule powr_real_of_int') simp_all
  have b: "(10::real) powr of_int (k + 1) = 10 powi (k + 1)"
    by (rule powr_real_of_int') simp_all
  have "\<lfloor>log 10 x\<rfloor> = k \<longleftrightarrow> 10 powr of_int k \<le> x \<and> x < 10 powr of_int (k + 1)"
    by (rule floor_log_eq_powr_iff) (use x in simp_all)
  then show ?thesis
    using lo hi by (simp only: a b simp_thms)
qed

lemma decimal_numeral:
  "decimal (numeral k) n = decimal (pred_numeral k) (n div 10) @ [digit (n mod 10)]"
  by (subst numeral_eq_Suc) (simp only: decimal.simps)

lemma fmt_g_200: "fmt_g 200 = ''200''"
proof -
  have "\<lfloor>log 10 (200::real)\<rfloor> = 2"
    by (rule floor_log10) (simp_all add: power_int_def)
  then have e0: "\<lfloor>log 10 \<bar>200::real\<bar>\<rfloor> = 2" by simp
  have "\<bar>200::real\<bar> / 10 powi (2 - 5) = 200000"
    by (simp add: power_int_def power_one_over)
  moreover have "round_half_even 200000 = 200000"
    by (simp add: round_half_even_def)
  ultimately have n0: "round_half_even (\<bar>200\<bar> / 10 powi (2 - 5)) = 200000"
    by simp
  have digits: "decimal 6 200000 = ''200000''"
    by (simp add: decimal_numeral digit_def)
  have pt: "point ''200'' ''000'' = ''200''"
    by (simp add: point_def strip_zeros_def)
  show ?thesis
    unfolding fmt_g_def Let_def e0 n0
    by (simp add: digits pt)
qed

subsection \<open>The solutions by closed forms when \<open>C = 0\<close>\<close>

text \<open>
  With subzero disabled the constructor gives \<open>C = 0\<close>, \<open>B < 0\<close> and \<open>0 < A\<close>, and the
  closed forms are the two roots of a quadratic, real where the discriminant is not
  negative.
\<close>

lemma init_quadratic:
  assumes "init standard False = Inr self"
  shows "C self = 0" "B self < 0" "0 < A self"
  using assms by (auto simp: init_def split: if_splits)

lemma closed_form_quadratic:
  assumes "C self = 0" "B self \<noteq> 0" "r0 \<noteq> 0"
  shows "closed_form (Eq r0 (A self) (B self) (C self)) =
           [\<lambda>r. quadratic_root (- 1) (of_real (r0 * B self)) (of_real (r0 * A self)) (of_real (r0 - r)),
            \<lambda>r. quadratic_root 1 (of_real (r0 * B self)) (of_real (r0 * A self)) (of_real (r0 - r))]"
  using assms by (simp add: Let_def)

lemma quadratic_root_real:
  fixes a b c :: real
  assumes "0 \<le> b ^ 2 - 4 * a * c"
  shows "quadratic_root 1 (of_real a) (of_real b) (of_real c)
           = of_real ((- b + sqrt (b ^ 2 - 4 * a * c)) / (2 * a))"
    and "quadratic_root (- 1) (of_real a) (of_real b) (of_real c)
           = of_real ((- b - sqrt (b ^ 2 - 4 * a * c)) / (2 * a))"
proof -
  have "(of_real b) ^ 2 - 4 * of_real a * of_real c = complex_of_real (b ^ 2 - 4 * a * c)"
    by simp
  then have s: "csqrt ((of_real b) ^ 2 - 4 * of_real a * of_real c)
                 = of_real (sqrt (b ^ 2 - 4 * a * c))"
    using assms by (simp only: csqrt_of_real)
  show "quadratic_root 1 (of_real a) (of_real b) (of_real c)
           = of_real ((- b + sqrt (b ^ 2 - 4 * a * c)) / (2 * a))"
    unfolding quadratic_root_def s by simp
  show "quadratic_root (- 1) (of_real a) (of_real b) (of_real c)
           = of_real ((- b - sqrt (b ^ 2 - 4 * a * c)) / (2 * a))"
    unfolding quadratic_root_def s by simp
qed

text \<open>
  The result depends on the order of the list of solutions, which the program leaves
  to the solver. With the two closed forms in one order the second solution is the
  branch through \<open>t = 0\<close> at \<open>r = r0\<close>; in the opposite order it is the other branch,
  which is \<open>- A / B\<close> there, above 6000 degrees.
\<close>

lemma temperature_closed_form_real:
  assumes "init standard False = Inr self" "r0 \<noteq> 0" "0 \<le> discriminant self r0 r"
  shows "temperature closed_form self r0 r =
           Inr (of_real ((- (r0 * A self) + sqrt (discriminant self r0 r)) / (2 * (r0 * B self))))"
proof -
  have b: "B self \<noteq> 0" and c: "C self = 0"
    using init_quadratic [OF assms(1)] by simp_all
  have "temperature closed_form self r0 r =
      Inr (quadratic_root 1 (of_real (r0 * B self)) (of_real (r0 * A self)) (of_real (r0 - r)))"
    unfolding temperature_def closed_form_quadratic [OF c b assms(2)] Let_def by simp
  then show ?thesis
    using quadratic_root_real(1) [of "r0 * A self" "r0 * B self" "r0 - r"] assms(3)
    by (simp only: discriminant_def)
qed

lemma temperature_closed_form_rev_real:
  assumes "init standard False = Inr self" "r0 \<noteq> 0" "0 \<le> discriminant self r0 r"
  shows "temperature closed_form_rev self r0 r =
           Inr (of_real ((- (r0 * A self) - sqrt (discriminant self r0 r)) / (2 * (r0 * B self))))"
proof -
  have b: "B self \<noteq> 0" and c: "C self = 0"
    using init_quadratic [OF assms(1)] by simp_all
  have "temperature closed_form_rev self r0 r =
      Inr (quadratic_root (- 1) (of_real (r0 * B self)) (of_real (r0 * A self)) (of_real (r0 - r)))"
    unfolding temperature_def closed_form_rev_def closed_form_quadratic [OF c b assms(2)] Let_def
    by simp
  then show ?thesis
    using quadratic_root_real(2) [of "r0 * A self" "r0 * B self" "r0 - r"] assms(3)
    by (simp only: discriminant_def)
qed

lemma temperature_closed_form_at_r0:
  assumes "init standard False = Inr self" "0 < r0"
  shows "temperature closed_form self r0 r0 = Inr 0"
proof -
  have a: "0 < A self" using init_quadratic [OF assms(1)] by simp
  have d: "discriminant self r0 r0 = (r0 * A self) ^ 2" by (simp add: discriminant_def)
  have "0 \<le> discriminant self r0 r0" unfolding d by simp
  moreover have "r0 \<noteq> 0" using assms(2) by simp
  ultimately have "temperature closed_form self r0 r0 =
           Inr (of_real ((- (r0 * A self) + sqrt (discriminant self r0 r0)) / (2 * (r0 * B self))))"
    using assms(1) by (intro temperature_closed_form_real)
  moreover have "sqrt (discriminant self r0 r0) = r0 * A self"
    unfolding d using a assms(2) by (simp add: real_sqrt_abs2 power2_eq_square [symmetric])
  ultimately show ?thesis by simp
qed

lemma temperature_closed_form_rev_at_r0:
  assumes "init standard False = Inr self" "0 < r0"
  shows "temperature closed_form_rev self r0 r0 = Inr (of_real (- A self / B self))"
    and "6000 < - A self / B self"
proof -
  have a: "0 < A self" and b: "B self < 0" using init_quadratic [OF assms(1)] by simp_all
  have d: "discriminant self r0 r0 = (r0 * A self) ^ 2" by (simp add: discriminant_def)
  have "0 \<le> discriminant self r0 r0" unfolding d by simp
  moreover have "r0 \<noteq> 0" using assms(2) by simp
  ultimately have "temperature closed_form_rev self r0 r0 =
           Inr (of_real ((- (r0 * A self) - sqrt (discriminant self r0 r0)) / (2 * (r0 * B self))))"
    using assms(1) by (intro temperature_closed_form_rev_real)
  moreover have "sqrt (discriminant self r0 r0) = r0 * A self"
    unfolding d using a assms(2) by (simp add: real_sqrt_abs2 power2_eq_square [symmetric])
  moreover have "(- (r0 * A self) - r0 * A self) / (2 * (r0 * B self)) = - A self / B self"
    using assms(2) b by (simp add: field_simps)
  ultimately show "temperature closed_form_rev self r0 r0 = Inr (of_real (- A self / B self))"
    by simp
  show "6000 < - A self / B self"
    using assms(1) by (auto simp: init_def split: if_splits)
qed

lemma discriminant_antimono:
  assumes "init standard False = Inr self" "0 < r0" "r1 < r2"
  shows "discriminant self r0 r2 < discriminant self r0 r1"
proof -
  have "r0 * B self < 0"
    using init_quadratic(2) [OF assms(1)] assms(2) by (simp add: mult_pos_neg)
  then have "(r0 * B self) * r2 < (r0 * B self) * r1"
    using assms(3) by (simp only: mult_less_cancel_left_neg)
  then show ?thesis by (simp add: discriminant_def algebra_simps)
qed

text \<open>In that order the result increases with the measured resistance.\<close>

lemma temperature_closed_form_mono:
  assumes "init standard False = Inr self" "0 < r0" "r1 < r2" "0 \<le> discriminant self r0 r2"
  shows "\<exists>t1 t2. temperature closed_form self r0 r1 = Inr (of_real t1) \<and>
           temperature closed_form self r0 r2 = Inr (of_real t2) \<and> t1 < t2"
proof -
  have n: "r0 \<noteq> 0" using assms(2) by simp
  have d: "discriminant self r0 r2 < discriminant self r0 r1"
    using assms(1-3) by (rule discriminant_antimono)
  then have d1: "0 \<le> discriminant self r0 r1" using assms(4) by simp
  have neg: "2 * (r0 * B self) < 0"
    using init_quadratic(2) [OF assms(1)] assms(2) by (simp add: mult_pos_neg)
  have "sqrt (discriminant self r0 r2) < sqrt (discriminant self r0 r1)"
    using d by simp
  then have "- (r0 * A self) + sqrt (discriminant self r0 r2)
               < - (r0 * A self) + sqrt (discriminant self r0 r1)"
    by simp
  then have "(- (r0 * A self) + sqrt (discriminant self r0 r1)) / (2 * (r0 * B self))
               < (- (r0 * A self) + sqrt (discriminant self r0 r2)) / (2 * (r0 * B self))"
    using neg by (rule divide_strict_right_mono_neg)
  then show ?thesis
    using temperature_closed_form_real [OF assms(1) n d1]
      temperature_closed_form_real [OF assms(1) n assms(4)]
    by blast
qed

text \<open>In the opposite order it decreases.\<close>

lemma temperature_closed_form_rev_antimono:
  assumes "init standard False = Inr self" "0 < r0" "r1 < r2" "0 \<le> discriminant self r0 r2"
  shows "\<exists>t1 t2. temperature closed_form_rev self r0 r1 = Inr (of_real t1) \<and>
           temperature closed_form_rev self r0 r2 = Inr (of_real t2) \<and> t2 < t1"
proof -
  have n: "r0 \<noteq> 0" using assms(2) by simp
  have d: "discriminant self r0 r2 < discriminant self r0 r1"
    using assms(1-3) by (rule discriminant_antimono)
  then have d1: "0 \<le> discriminant self r0 r1" using assms(4) by simp
  have neg: "2 * (r0 * B self) < 0"
    using init_quadratic(2) [OF assms(1)] assms(2) by (simp add: mult_pos_neg)
  have "sqrt (discriminant self r0 r2) < sqrt (discriminant self r0 r1)"
    using d by simp
  then have "- (r0 * A self) - sqrt (discriminant self r0 r1)
               < - (r0 * A self) - sqrt (discriminant self r0 r2)"
    by simp
  then have "(- (r0 * A self) - sqrt (discriminant self r0 r2)) / (2 * (r0 * B self))
               < (- (r0 * A self) - sqrt (discriminant self r0 r1)) / (2 * (r0 * B self))"
    using neg by (rule divide_strict_right_mono_neg)
  then show ?thesis
    using temperature_closed_form_rev_real [OF assms(1) n d1]
      temperature_closed_form_rev_real [OF assms(1) n assms(4)]
    by blast
qed

subsection \<open>Formatting the two solutions of the script's reading\<close>

text \<open>Rounding to the nearest integer, and \<^verbatim>\<open>%g\<close> on two intervals.\<close>

lemma round_half_even_eq:
  assumes "of_int n - 1 / 2 < x" "x < of_int n + 1 / 2"
  shows "round_half_even x = n"
proof (cases "of_int n \<le> x")
  case True
  then have "\<lfloor>x\<rfloor> = n" using assms(2) by linarith
  then show ?thesis using assms(2) by (simp add: round_half_even_def Let_def)
next
  case False
  then have f: "\<lfloor>x\<rfloor> = n - 1" using assms(1) by linarith
  show ?thesis using assms(1) False unfolding round_half_even_def Let_def f by simp
qed

lemma fmt_g_minus_150:
  assumes "150.1825 < y" "y < 150.1835"
  shows "fmt_g (- y) = ''-150.183''"
proof -
  have "\<lfloor>log 10 y\<rfloor> = 2"
    by (rule floor_log10) (use assms in \<open>simp_all add: power_int_def\<close>)
  then have e0: "\<lfloor>log 10 \<bar>- y\<bar>\<rfloor> = 2" using assms by simp
  have "\<bar>- y\<bar> / 10 powi (2 - 5) = y * 1000"
    using assms by (simp add: power_int_def power_one_over)
  moreover have "round_half_even (y * 1000) = 150183"
    by (rule round_half_even_eq) (use assms in simp_all)
  ultimately have n0: "round_half_even (\<bar>- y\<bar> / 10 powi (2 - 5)) = 150183"
    by simp
  have digits: "decimal 6 150183 = ''150183''"
    by (simp add: decimal_numeral digit_def)
  have pt: "point ''150'' ''183'' = ''150.183''"
    by (simp add: point_def strip_zeros_def)
  have neg: "- y < 0" "- y \<noteq> 0" using assms by simp_all
  show ?thesis
    unfolding fmt_g_def Let_def e0 n0
    using neg by (simp add: digits pt)
qed

lemma fmt_g_6885:
  assumes "6885.905 < y" "y < 6885.915"
  shows "fmt_g y = ''6885.91''"
proof -
  have "\<lfloor>log 10 y\<rfloor> = 3"
    by (rule floor_log10) (use assms in \<open>simp_all add: power_int_def\<close>)
  then have e0: "\<lfloor>log 10 \<bar>y\<bar>\<rfloor> = 3" using assms by simp
  have "\<bar>y\<bar> / 10 powi (3 - 5) = y * 100"
    using assms by (simp add: power_int_def power_one_over)
  moreover have "round_half_even (y * 100) = 688591"
    by (rule round_half_even_eq) (use assms in simp_all)
  ultimately have n0: "round_half_even (\<bar>y\<bar> / 10 powi (3 - 5)) = 688591"
    by simp
  have digits: "decimal 6 688591 = ''688591''"
    by (simp add: decimal_numeral digit_def)
  have pt: "point ''6885'' ''91'' = ''6885.91''"
    by (simp add: point_def strip_zeros_def)
  have pos: "\<not> y < 0" "y \<noteq> 0" using assms by simp_all
  show ?thesis
    unfolding fmt_g_def Let_def e0 n0
    using pos by (simp add: digits pt)
qed

text \<open>
  The two real solutions of the equation of the script's reading, to six significant
  digits, and what the script prints for each.
\<close>

lemma script_roots:
  fixes x :: real
  assumes "holds (Eq 500 (A cvd) (B cvd) (C cvd)) 200 (of_real x)"
  shows "(- 150.1835 < x \<and> x < - 150.1825) \<or> (6885.905 < x \<and> x < 6885.915)"
proof -
  define s where "s = x * x"
  have "200 = 500 * (1 + A cvd * x + B cvd * x ^ 2 + C cvd * (x - 100) ^ 3)"
    using assms by (simp only: holds_real)
  then have q: "58019 * s = 390800000 * x + 60000000000"
    by (simp add: s_def cvd_def field_simps power2_eq_square)
  have expand: "(x - u) * (58019 * (x + u) - 390800000)
                  = 58019 * s - 390800000 * x - (58019 * (u * u) - 390800000 * u)" for u
    by (simp add: s_def algebra_simps)
  have between: "(x - l) * (x - u) = s - (l + u) * x + l * u" for l u
    by (simp add: s_def algebra_simps)
  have left: False if "x \<le> - 150.1835"
  proof -
    have "0 \<le> (x - (- 150.1835)) * (58019 * (x + (- 150.1835)) - 390800000)"
      using that by (intro mult_nonpos_nonpos) simp_all
    then have "0 \<le> 58019 * s - 390800000 * x
                 - (58019 * (- 150.1835 * - 150.1835) - 390800000 * (- 150.1835))"
      by (simp only: expand)
    then show False using q by simp
  qed
  have middle: False if "- 150.1825 \<le> x" "x \<le> 6885.905"
  proof -
    have "(x - (- 150.1825)) * (x - 6885.905) \<le> 0"
      using that by (intro mult_nonneg_nonpos) simp_all
    then have "s - (- 150.1825 + 6885.905) * x + (- 150.1825) * 6885.905 \<le> 0"
      by (simp only: between)
    then show False using q that by simp
  qed
  have right: False if "6885.915 \<le> x"
  proof -
    have "0 \<le> (x - 6885.915) * (58019 * (x + 6885.915) - 390800000)"
      using that by (intro mult_nonneg_nonneg) simp_all
    then have "0 \<le> 58019 * s - 390800000 * x
                 - (58019 * (6885.915 * 6885.915) - 390800000 * 6885.915)"
      by (simp only: expand)
    then show False using q by simp
  qed
  show ?thesis using left middle right by fastforce
qed

lemma script_line:
  assumes "holds (Eq 500 (A cvd) (B cvd) (C cvd)) 200 z"
  shows "z \<in> \<real>"
    and "fmt_g (Re z) = (if Re z < 0 then ''-150.183'' else ''6885.91'')"
proof -
  show r: "z \<in> \<real>" using assms by (rule script_reading_real)
  then have "z = of_real (Re z)" by (simp add: complex_is_Real_iff complex_eq_iff)
  then have "holds (Eq 500 (A cvd) (B cvd) (C cvd)) 200 (of_real (Re z))"
    using assms by simp
  then consider "- 150.1835 < Re z" "Re z < - 150.1825" | "6885.905 < Re z" "Re z < 6885.915"
    using script_roots by blast
  then show "fmt_g (Re z) = (if Re z < 0 then ''-150.183'' else ''6885.91'')"
  proof cases
    case 1
    then have "fmt_g (- (- Re z)) = ''-150.183''"
      by (intro fmt_g_minus_150) simp_all
    then show ?thesis using 1 by simp
  next
    case 2
    then have "fmt_g (Re z) = ''6885.91''"
      by (intro fmt_g_6885)
    then show ?thesis using 2 by simp
  qed
qed

lemma main_lines:
  assumes "solver_sound solve" "1 < length (solve (Eq 500 (A cvd) (B cvd) (C cvd)))"
  shows "main solve =
           ([''Resistance = 200'',
             ''Temperature = '' @
               (if Re ((solve (Eq 500 (A cvd) (B cvd) (C cvd)) ! 1) 200) < 0 then ''-150.183''
                else ''6885.91'')], None)"
proof -
  define z where "z = (solve (Eq 500 (A cvd) (B cvd) (C cvd)) ! 1) 200"
  have t: "temperature solve cvd 500 200 = Inr z"
    unfolding z_def using assms(2) by (rule temperature_second)
  have h: "holds (Eq 500 (A cvd) (B cvd) (C cvd)) 200 z"
    unfolding z_def using assms by (rule temperature_holds)
  have "main solve = ([''Resistance = 200'', ''Temperature = '' @ fmt_g (Re z)], None)"
    using script_line(1) [OF h] by (simp add: main_def cvd_init t fmt_g_200)
  then have "main solve =
      ([''Resistance = 200'',
        ''Temperature = '' @ (if Re z < 0 then ''-150.183'' else ''6885.91'')], None)"
    by (simp only: script_line(2) [OF h])
  then show ?thesis unfolding z_def .
qed

text \<open>The second closed form at the script's reading, in each order.\<close>

lemma script_closed_form:
  "temperature closed_form cvd 500 200 = Inr ((closed_form (Eq 500 (A cvd) (B cvd) (C cvd)) ! 1) 200)"
  "Re ((closed_form (Eq 500 (A cvd) (B cvd) (C cvd)) ! 1) 200) < 0"
proof -
  have l: "1 < length (closed_form (Eq 500 (A cvd) (B cvd) (C cvd)))"
    using cvd_init by (rule closed_form_length) simp
  show t: "temperature closed_form cvd 500 200
             = Inr ((closed_form (Eq 500 (A cvd) (B cvd) (C cvd)) ! 1) 200)"
    using l by (rule temperature_second)
  have i: "init ''DIN43760'' False = Inr cvd"
    using cvd_init by (simp add: default_standard_def default_subzero_def)
  have d: "0 \<le> discriminant cvd 500 200" by (simp add: discriminant_def cvd_def)
  have "temperature closed_form cvd 500 200 =
      Inr (of_real ((- (500 * A cvd) + sqrt (discriminant cvd 500 200)) / (2 * (500 * B cvd))))"
    using i _ d by (rule temperature_closed_form_real) simp
  then have v: "(closed_form (Eq 500 (A cvd) (B cvd) (C cvd)) ! 1) 200 =
      of_real ((- (500 * A cvd) + sqrt (discriminant cvd 500 200)) / (2 * (500 * B cvd)))"
    using t by simp
  have "(500 * A cvd) ^ 2 < discriminant cvd 500 200"
    by (simp add: discriminant_def cvd_def)
  then have "500 * A cvd < sqrt (discriminant cvd 500 200)"
    by (rule real_less_rsqrt)
  then have "0 < - (500 * A cvd) + sqrt (discriminant cvd 500 200)" by simp
  moreover have "2 * (500 * B cvd) < 0" by (simp add: cvd_def)
  ultimately have "(- (500 * A cvd) + sqrt (discriminant cvd 500 200)) / (2 * (500 * B cvd)) < 0"
    by (rule divide_pos_neg)
  then show "Re ((closed_form (Eq 500 (A cvd) (B cvd) (C cvd)) ! 1) 200) < 0"
    unfolding v by simp
qed

lemma script_closed_form_rev:
  "temperature closed_form_rev cvd 500 200
     = Inr ((closed_form_rev (Eq 500 (A cvd) (B cvd) (C cvd)) ! 1) 200)"
  "0 < Re ((closed_form_rev (Eq 500 (A cvd) (B cvd) (C cvd)) ! 1) 200)"
proof -
  have l: "1 < length (closed_form_rev (Eq 500 (A cvd) (B cvd) (C cvd)))"
    using cvd_init by (rule closed_form_rev_length) simp
  show t: "temperature closed_form_rev cvd 500 200
             = Inr ((closed_form_rev (Eq 500 (A cvd) (B cvd) (C cvd)) ! 1) 200)"
    using l by (rule temperature_second)
  have i: "init ''DIN43760'' False = Inr cvd"
    using cvd_init by (simp add: default_standard_def default_subzero_def)
  have d: "0 \<le> discriminant cvd 500 200" by (simp add: discriminant_def cvd_def)
  have "temperature closed_form_rev cvd 500 200 =
      Inr (of_real ((- (500 * A cvd) - sqrt (discriminant cvd 500 200)) / (2 * (500 * B cvd))))"
    using i _ d by (rule temperature_closed_form_rev_real) simp
  then have v: "(closed_form_rev (Eq 500 (A cvd) (B cvd) (C cvd)) ! 1) 200 =
      of_real ((- (500 * A cvd) - sqrt (discriminant cvd 500 200)) / (2 * (500 * B cvd)))"
    using t by simp
  have "0 \<le> sqrt (discriminant cvd 500 200)" using d by simp
  moreover have "0 < 500 * A cvd" by (simp add: cvd_def)
  ultimately have "- (500 * A cvd) - sqrt (discriminant cvd 500 200) < 0" by linarith
  moreover have "2 * (500 * B cvd) < 0" by (simp add: cvd_def)
  ultimately have "0 < (- (500 * A cvd) - sqrt (discriminant cvd 500 200)) / (2 * (500 * B cvd))"
    by (rule divide_neg_neg)
  then show "0 < Re ((closed_form_rev (Eq 500 (A cvd) (B cvd) (C cvd)) ! 1) 200)"
    unfolding v by simp
qed

lemma script_in_range_root: "real_root_in_range (Eq 500 (A cvd) (B cvd) (C cvd)) 200"
proof -
  define z where "z = (closed_form (Eq 500 (A cvd) (B cvd) (C cvd)) ! 1) 200"
  have l: "1 < length (closed_form (Eq 500 (A cvd) (B cvd) (C cvd)))"
    using cvd_init by (rule closed_form_length) simp
  have h: "holds (Eq 500 (A cvd) (B cvd) (C cvd)) 200 z"
    unfolding z_def using closed_form_sound l by (rule temperature_holds)
  then have "z \<in> \<real>" by (rule script_reading_real)
  then have zr: "z = of_real (Re z)" by (simp add: complex_is_Real_iff complex_eq_iff)
  then have hr: "holds (Eq 500 (A cvd) (B cvd) (C cvd)) 200 (of_real (Re z))"
    using h by simp
  have "Re z < 0" unfolding z_def by (rule script_closed_form(2))
  then have "- 150.1835 < Re z \<and> Re z < - 150.1825"
    using script_roots [OF hr] by simp
  then have "- 200 \<le> Re z \<and> Re z \<le> 850" by simp
  then show ?thesis unfolding real_root_in_range_def using hr by blast
qed

subsection \<open>The solver in the order of the program's solver\<close>

text \<open>
  It is sound, and it is \<open>closed_form_rev\<close> for \<open>r0 > 0\<close> and \<open>closed_form\<close> for \<open>r0 < 0\<close> when
  subzero is disabled.
\<close>

lemma sympy_solve_sound: "solver_sound sympy_solve"
proof -
  have "sympy_solve e = closed_form e \<or> sympy_solve e = closed_form_rev e" for e
    by (cases e) simp
  then show ?thesis
    using closed_form_sound closed_form_rev_sound unfolding solver_sound_def by metis
qed

lemma sympy_solve_quadratic:
  assumes "init standard False = Inr self" "0 < r0"
  shows "temperature sympy_solve self r0 r = temperature closed_form_rev self r0 r"
proof -
  have "C self = 0" "B self < 0" using init_quadratic [OF assms(1)] by simp_all
  then have "r0 * C self = 0 \<and> r0 * (B self - 300 * C self) < 0"
    using assms(2) by (simp add: mult_pos_neg)
  then show ?thesis by (simp add: temperature_def)
qed

lemma sympy_solve_negative:
  assumes "init standard False = Inr self" "r0 < 0"
  shows "temperature sympy_solve self r0 r = temperature closed_form self r0 r"
proof -
  have "C self = 0" "B self < 0" using init_quadratic [OF assms(1)] by simp_all
  then have "\<not> r0 * (B self - 300 * C self) < 0"
    using assms(2) by (simp add: mult_neg_neg less_imp_le not_less)
  then show ?thesis by (simp add: temperature_def)
qed

lemma cvd_init': "init ''DIN43760'' False = Inr cvd"
  using cvd_init by (simp add: default_standard_def default_subzero_def)

lemma init_ratio:
  assumes "init standard False = Inr self"
  shows "6000 < - A self / B self"
  using assms by (auto simp: init_def split: if_splits)

lemma init_slope:
  assumes "init standard False = Inr self" "0 \<le> t" "t \<le> 850"
  shows "0 < A self + 2 * B self * t"
  using assms by (auto simp: init_def split: if_splits)

text \<open>What the script prints with this solver.\<close>

lemma main_sympy_solve:
  "main sympy_solve = ([''Resistance = 200'', ''Temperature = 6885.91''], None)"
proof -
  have e: "sympy_solve (Eq 500 (A cvd) (B cvd) (C cvd))
             = closed_form_rev (Eq 500 (A cvd) (B cvd) (C cvd))"
    by (simp add: cvd_def)
  have l: "1 < length (sympy_solve (Eq 500 (A cvd) (B cvd) (C cvd)))"
    unfolding e using cvd_init by (rule closed_form_rev_length) simp
  show ?thesis
    using main_lines [OF sympy_solve_sound l] script_closed_form_rev(2) unfolding e by simp
qed

text \<open>The reading with \<open>r0 = -500\<close>, \<open>r_measured = 200\<close>.\<close>

lemma negative_r0_value:
  "\<exists>t. temperature sympy_solve cvd (- 500) 200 = Inr (of_real t) \<and> 7076.70 < t \<and> t < 7076.71"
proof -
  define x where "x = (- (- 500 * A cvd) + sqrt (discriminant cvd (- 500) 200)) / (2 * (- 500 * B cvd))"
  define s where "s = x * x"
  have d: "0 \<le> discriminant cvd (- 500) 200" by (simp add: discriminant_def cvd_def)
  have t: "temperature closed_form cvd (- 500) 200 = Inr (of_real x)"
    unfolding x_def using cvd_init' _ d by (rule temperature_closed_form_real) simp
  have l: "1 < length (closed_form (Eq (- 500) (A cvd) (B cvd) (C cvd)))"
    using cvd_init by (rule closed_form_length) simp
  have "holds (Eq (- 500) (A cvd) (B cvd) (C cvd)) 200
          ((closed_form (Eq (- 500) (A cvd) (B cvd) (C cvd)) ! 1) 200)"
    using closed_form_sound l by (rule temperature_holds)
  moreover have "(closed_form (Eq (- 500) (A cvd) (B cvd) (C cvd)) ! 1) 200 = of_real x"
    using t temperature_second [of closed_form "- 500" cvd 200, OF l] by simp
  ultimately have "holds (Eq (- 500) (A cvd) (B cvd) (C cvd)) 200 (of_real x)" by simp
  then have "200 = - 500 * (1 + A cvd * x + B cvd * x ^ 2 + C cvd * (x - 100) ^ 3)"
    by (simp only: holds_real)
  then have q: "58019 * s = 390800000 * x + 140000000000"
    by (simp add: s_def cvd_def field_simps power2_eq_square)
  have "0 \<le> sqrt (discriminant cvd (- 500) 200)" using d by simp
  moreover have "0 < - (- 500 * A cvd)" by (simp add: cvd_def)
  ultimately have "0 < - (- 500 * A cvd) + sqrt (discriminant cvd (- 500) 200)" by linarith
  moreover have "0 < 2 * (- 500 * B cvd)" by (simp add: cvd_def)
  ultimately have pos: "0 < x" unfolding x_def by (rule divide_pos_pos)
  have expand: "(x - u) * (58019 * (x + u) - 390800000)
                  = 58019 * s - 390800000 * x - (58019 * (u * u) - 390800000 * u)" for u
    by (simp add: s_def algebra_simps)
  have low: False if "x \<le> 7076.70"
  proof -
    have "(x - 0) * (x - 7076.70) \<le> 0"
      using that pos by (intro mult_nonneg_nonpos) simp_all
    then have "s - 7076.70 * x \<le> 0" by (simp add: s_def algebra_simps)
    then show False using q that pos by simp
  qed
  have high: False if "7076.71 \<le> x"
  proof -
    have "0 \<le> (x - 7076.71) * (58019 * (x + 7076.71) - 390800000)"
      using that by (intro mult_nonneg_nonneg) simp_all
    then have "0 \<le> 58019 * s - 390800000 * x
        - (58019 * (7076.71 * 7076.71) - 390800000 * 7076.71)"
      by (simp only: expand)
    then show False using q by simp
  qed
  have "7076.70 < x \<and> x < 7076.71" using low high by fastforce
  moreover have "temperature sympy_solve cvd (- 500) 200 = Inr (of_real x)"
    using sympy_solve_negative [OF cvd_init', of "- 500" 200] t by simp
  ultimately show ?thesis by blast
qed

section \<open>The constructor\<close>

text \<open>
  C2. Constructing with one of the three standards sets \<open>A\<close> and \<open>B\<close> to the values of
  the table (DIN43760: 3.9080e-3 and -5.8019e-7; American: 3.9692e-3 and -5.8495e-7;
  ITS-90: 3.9848e-3 and -5.870e-7); \<open>C\<close> is the standard's table value (-4.2735e-12,
  -4.2325e-12, -4.0000e-12) when subzero is true and exactly 0 when it is false.
\<close>

theorem init_coefficients:
  "init ''DIN43760'' True =
     Inr \<lparr>A = 3.9080 / 10 ^ 3, B = - 5.8019 / 10 ^ 7, C = - 4.2735 / 10 ^ 12\<rparr> \<and>
   init ''DIN43760'' False = Inr \<lparr>A = 3.9080 / 10 ^ 3, B = - 5.8019 / 10 ^ 7, C = 0\<rparr> \<and>
   init ''American'' True =
     Inr \<lparr>A = 3.9692 / 10 ^ 3, B = - 5.8495 / 10 ^ 7, C = - 4.2325 / 10 ^ 12\<rparr> \<and>
   init ''American'' False = Inr \<lparr>A = 3.9692 / 10 ^ 3, B = - 5.8495 / 10 ^ 7, C = 0\<rparr> \<and>
   init ''ITS-90'' True =
     Inr \<lparr>A = 3.9848 / 10 ^ 3, B = - 5.870 / 10 ^ 7, C = - 4.0000 / 10 ^ 12\<rparr> \<and>
   init ''ITS-90'' False = Inr \<lparr>A = 3.9848 / 10 ^ 3, B = - 5.870 / 10 ^ 7, C = 0\<rparr>"
  by (simp add: init_def)

text \<open>
  C3. A standard name outside DIN43760, American and ITS-90 makes the constructor raise
  (a \<^verbatim>\<open>ValueError\<close> naming the standard), so no instance is produced; for the three
  recognised names it never raises.
\<close>

theorem init_raises_iff:
  "(standard \<notin> {''DIN43760'', ''American'', ''ITS-90''} \<longrightarrow>
      init standard subzero = Inl (ValueError (''Unknown standard '' @ standard))) \<and>
   (standard \<in> {''DIN43760'', ''American'', ''ITS-90''} \<longrightarrow>
      \<not> isl (init standard subzero))"
  by (simp add: init_def)

theorem init_raises_iff_witness:
  "''Foo'' \<notin> {''DIN43760'', ''American'', ''ITS-90''} \<and>
   init ''Foo'' False = Inl (ValueError ''Unknown standard Foo'') \<and>
   ''ITS-90'' \<in> {''DIN43760'', ''American'', ''ITS-90''} \<and>
   \<not> isl (init ''ITS-90'' True)"
  using init_raises_iff [of "''Foo''" False] init_raises_iff [of "''ITS-90''" True]
  by simp

section \<open>The errors of temperature\<close>

text \<open>
  C10. \<^verbatim>\<open>temperature\<close> takes the element at index 1 of the solver's list without a
  guard: whenever the list has fewer than two elements the call raises
  \<^verbatim>\<open>IndexError\<close>; in particular for \<open>r0 = 0\<close>, where the equation is \<open>r = 0\<close> and has no
  solution in \<open>t\<close>, whatever the (sound) solver.
\<close>

theorem temperature_index_error:
  "(length (solve (Eq r0 (A self) (B self) (C self))) < 2 \<longrightarrow>
      temperature solve self r0 r_measured = Inl IndexError) \<and>
   (solver_sound solve \<longrightarrow> temperature solve self 0 r_measured = Inl IndexError)"
proof (intro conjI impI)
  assume "length (solve (Eq r0 (A self) (B self) (C self))) < 2"
  then show "temperature solve self r0 r_measured = Inl IndexError"
    by (simp add: temperature_def)
next
  assume "solver_sound solve"
  then have "solve (Eq 0 (A self) (B self) (C self)) = []"
    by (rule sound_degenerate)
  then show "temperature solve self 0 r_measured = Inl IndexError"
    by (simp add: temperature_def)
qed

text \<open>The closed-form solver is sound and returns no solution for \<open>r0 = 0\<close>.\<close>

theorem temperature_index_error_witness:
  "length (closed_form (Eq 0 (A cvd) (B cvd) (C cvd))) < 2 \<and>
   solver_sound closed_form \<and>
   temperature closed_form cvd 0 200 = Inl IndexError"
  using temperature_index_error [of closed_form 0 cvd 200] closed_form_sound
  by simp

text \<open>
  The claim C7 as stated, that every \<open>r0 \<le> 0\<close> is rejected, fails at \<open>r0 = -500\<close>: the
  closed-form solver returns two solutions, in either order, and \<^verbatim>\<open>temperature\<close> returns
  a value.
\<close>

theorem temperature_domain_error_counterexample:
  "(- 500 :: real) \<le> 0 \<and>
   \<not> isl (temperature closed_form cvd (- 500) 200) \<and>
   \<not> isl (temperature closed_form_rev cvd (- 500) 200)"
proof -
  have "1 < length (closed_form (Eq (- 500) (A cvd) (B cvd) (C cvd)))"
    using cvd_init by (rule closed_form_length) simp
  moreover have "1 < length (closed_form_rev (Eq (- 500) (A cvd) (B cvd) (C cvd)))"
    using cvd_init by (rule closed_form_rev_length) simp
  ultimately show ?thesis by (simp add: temperature_returns)
qed

text \<open>
  C7, as amended. \<^verbatim>\<open>temperature\<close> does not check \<open>r0\<close>, and for \<open>r0 \<le> 0\<close> and a sound solver
  it has two outcomes only. When the solver returns two solutions or more, then
  \<open>r0 < 0\<close>, the input is not rejected and the call returns the element at index 1 of
  the solver's list at \<open>r_measured\<close>, which solves the governing equation. When the
  solver returns fewer than two solutions, as it must for \<open>r0 = 0\<close>, the call is aborted
  by the \<^verbatim>\<open>IndexError\<close> of the list access.
\<close>

theorem temperature_nonpositive_r0:
  assumes "solver_sound solve" "r0 \<le> 0"
  shows "(1 < length (solve (Eq r0 (A self) (B self) (C self))) \<longrightarrow>
            r0 < 0 \<and>
            temperature solve self r0 r_measured =
              Inr ((solve (Eq r0 (A self) (B self) (C self)) ! 1) r_measured) \<and>
            holds (Eq r0 (A self) (B self) (C self)) r_measured
              ((solve (Eq r0 (A self) (B self) (C self)) ! 1) r_measured)) \<and>
         (\<not> 1 < length (solve (Eq r0 (A self) (B self) (C self))) \<longrightarrow>
            temperature solve self r0 r_measured = Inl IndexError) \<and>
         (r0 = 0 \<longrightarrow> temperature solve self r0 r_measured = Inl IndexError)"
proof (intro conjI impI)
  assume l: "1 < length (solve (Eq r0 (A self) (B self) (C self)))"
  have "r0 \<noteq> 0"
  proof
    assume "r0 = 0"
    then have "solve (Eq r0 (A self) (B self) (C self)) = []"
      using sound_degenerate [OF assms(1)] by simp
    then show False using l by simp
  qed
  then show "r0 < 0" using assms(2) by simp
  show "temperature solve self r0 r_measured =
          Inr ((solve (Eq r0 (A self) (B self) (C self)) ! 1) r_measured)"
    using l by (rule temperature_second)
  show "holds (Eq r0 (A self) (B self) (C self)) r_measured
          ((solve (Eq r0 (A self) (B self) (C self)) ! 1) r_measured)"
    using assms(1) l by (rule temperature_holds)
next
  assume "\<not> 1 < length (solve (Eq r0 (A self) (B self) (C self)))"
  then show "temperature solve self r0 r_measured = Inl IndexError"
    by (rule temperature_fails)
next
  assume "r0 = 0"
  then have "solve (Eq r0 (A self) (B self) (C self)) = []"
    using sound_degenerate [OF assms(1)] by simp
  then show "temperature solve self r0 r_measured = Inl IndexError"
    by (simp add: temperature_def)
qed

text \<open>The amended claim at \<open>r0 = -500\<close> and at \<open>r0 = 0\<close>, with the closed-form solver.\<close>

theorem temperature_nonpositive_r0_witness:
  "solver_sound closed_form \<and> (- 500 :: real) \<le> 0 \<and>
   1 < length (closed_form (Eq (- 500) (A cvd) (B cvd) (C cvd))) \<and>
   temperature closed_form cvd (- 500) 200 =
     Inr ((closed_form (Eq (- 500) (A cvd) (B cvd) (C cvd)) ! 1) 200) \<and>
   holds (Eq (- 500) (A cvd) (B cvd) (C cvd)) 200
     ((closed_form (Eq (- 500) (A cvd) (B cvd) (C cvd)) ! 1) 200) \<and>
   (0 :: real) \<le> 0 \<and>
   \<not> 1 < length (closed_form (Eq 0 (A cvd) (B cvd) (C cvd))) \<and>
   temperature closed_form cvd 0 200 = Inl IndexError"
proof -
  have l: "1 < length (closed_form (Eq (- 500) (A cvd) (B cvd) (C cvd)))"
    using cvd_init by (rule closed_form_length) simp
  have n: "\<not> 1 < length (closed_form (Eq 0 (A cvd) (B cvd) (C cvd)))"
    by simp
  have a: "(- 500 :: real) \<le> 0" and b: "(0 :: real) \<le> 0" by simp_all
  show ?thesis
    using temperature_nonpositive_r0 [OF closed_form_sound a, of cvd 200]
      temperature_nonpositive_r0 [OF closed_form_sound b, of cvd 200]
      l n closed_form_sound
    by simp
qed

text \<open>
  The claim C8 as stated, that a reading with no real solution in the rated range
  ends in a failure, fails at \<open>r0 = 100\<close>, \<open>r_measured = 1000\<close>: the quadratic has no real
  root at all there and \<^verbatim>\<open>temperature\<close> returns a value, with the closed forms in either
  order.
\<close>

theorem temperature_no_solution_counterexample:
  "(0 :: real) < 100 \<and>
   \<not> real_root_in_range (Eq 100 (A cvd) (B cvd) (C cvd)) 1000 \<and>
   \<not> isl (temperature closed_form cvd 100 1000) \<and>
   \<not> isl (temperature closed_form_rev cvd 100 1000)"
proof -
  have "1 < length (closed_form (Eq 100 (A cvd) (B cvd) (C cvd)))"
    using cvd_init by (rule closed_form_length) simp
  moreover have "1 < length (closed_form_rev (Eq 100 (A cvd) (B cvd) (C cvd)))"
    using cvd_init by (rule closed_form_rev_length) simp
  ultimately show ?thesis by (simp add: temperature_returns no_real_root_100_1000)
qed

text \<open>
  C8, as amended. \<^verbatim>\<open>temperature\<close> has no outcome for a reading without a solution in
  range. It has two outcomes only: the element at index 1 of the solver's list at
  \<open>r_measured\<close> when the list has two elements or more, and \<^verbatim>\<open>IndexError\<close> otherwise.
  For \<open>r0 > 0\<close> and a sound solver, when the equation has no real solution between -200
  and 850 at \<open>r_measured\<close>, the element returned solves the equation and is not real or
  is out of that range.
\<close>

theorem temperature_out_of_range:
  "(1 < length (solve (Eq r0 (A self) (B self) (C self))) \<longrightarrow>
      temperature solve self r0 r_measured =
        Inr ((solve (Eq r0 (A self) (B self) (C self)) ! 1) r_measured)) \<and>
   (\<not> 1 < length (solve (Eq r0 (A self) (B self) (C self))) \<longrightarrow>
      temperature solve self r0 r_measured = Inl IndexError) \<and>
   (0 < r0 \<and> solver_sound solve \<and> 1 < length (solve (Eq r0 (A self) (B self) (C self))) \<and>
    \<not> real_root_in_range (Eq r0 (A self) (B self) (C self)) r_measured \<longrightarrow>
      holds (Eq r0 (A self) (B self) (C self)) r_measured
        ((solve (Eq r0 (A self) (B self) (C self)) ! 1) r_measured) \<and>
      \<not> ((solve (Eq r0 (A self) (B self) (C self)) ! 1) r_measured \<in> \<real> \<and>
         - 200 \<le> Re ((solve (Eq r0 (A self) (B self) (C self)) ! 1) r_measured) \<and>
         Re ((solve (Eq r0 (A self) (B self) (C self)) ! 1) r_measured) \<le> 850))"
proof (intro conjI impI)
  assume "1 < length (solve (Eq r0 (A self) (B self) (C self)))"
  then show "temperature solve self r0 r_measured =
          Inr ((solve (Eq r0 (A self) (B self) (C self)) ! 1) r_measured)"
    by (rule temperature_second)
next
  assume "\<not> 1 < length (solve (Eq r0 (A self) (B self) (C self)))"
  then show "temperature solve self r0 r_measured = Inl IndexError"
    by (rule temperature_fails)
next
  assume a: "0 < r0 \<and> solver_sound solve \<and>
    1 < length (solve (Eq r0 (A self) (B self) (C self))) \<and>
    \<not> real_root_in_range (Eq r0 (A self) (B self) (C self)) r_measured"
  define z where "z = (solve (Eq r0 (A self) (B self) (C self)) ! 1) r_measured"
  have h: "holds (Eq r0 (A self) (B self) (C self)) r_measured z"
    unfolding z_def using a by (intro temperature_holds) simp_all
  then show "holds (Eq r0 (A self) (B self) (C self)) r_measured
          ((solve (Eq r0 (A self) (B self) (C self)) ! 1) r_measured)"
    by (simp only: z_def)
  have "\<not> (z \<in> \<real> \<and> - 200 \<le> Re z \<and> Re z \<le> 850)"
  proof
    assume b: "z \<in> \<real> \<and> - 200 \<le> Re z \<and> Re z \<le> 850"
    then have "z = of_real (Re z)" by (simp add: complex_is_Real_iff complex_eq_iff)
    then have "holds (Eq r0 (A self) (B self) (C self)) r_measured (of_real (Re z))"
      using h by simp
    then have "real_root_in_range (Eq r0 (A self) (B self) (C self)) r_measured"
      unfolding real_root_in_range_def using b by blast
    then show False using a by simp
  qed
  then show "\<not> ((solve (Eq r0 (A self) (B self) (C self)) ! 1) r_measured \<in> \<real> \<and>
         - 200 \<le> Re ((solve (Eq r0 (A self) (B self) (C self)) ! 1) r_measured) \<and>
         Re ((solve (Eq r0 (A self) (B self) (C self)) ! 1) r_measured) \<le> 850)"
    unfolding z_def .
qed

text \<open>
  The amended claim at \<open>r0 = 100\<close>, \<open>r_measured = 1000\<close>, and at \<open>r0 = 0\<close> for the
  \<^verbatim>\<open>IndexError\<close>, with the closed-form solver.
\<close>

theorem temperature_out_of_range_witness:
  "(0 :: real) < 100 \<and> solver_sound closed_form \<and>
   1 < length (closed_form (Eq 100 (A cvd) (B cvd) (C cvd))) \<and>
   \<not> real_root_in_range (Eq 100 (A cvd) (B cvd) (C cvd)) 1000 \<and>
   temperature closed_form cvd 100 1000 =
     Inr ((closed_form (Eq 100 (A cvd) (B cvd) (C cvd)) ! 1) 1000) \<and>
   holds (Eq 100 (A cvd) (B cvd) (C cvd)) 1000
     ((closed_form (Eq 100 (A cvd) (B cvd) (C cvd)) ! 1) 1000) \<and>
   \<not> ((closed_form (Eq 100 (A cvd) (B cvd) (C cvd)) ! 1) 1000 \<in> \<real> \<and>
      - 200 \<le> Re ((closed_form (Eq 100 (A cvd) (B cvd) (C cvd)) ! 1) 1000) \<and>
      Re ((closed_form (Eq 100 (A cvd) (B cvd) (C cvd)) ! 1) 1000) \<le> 850) \<and>
   \<not> 1 < length (closed_form (Eq 0 (A cvd) (B cvd) (C cvd))) \<and>
   temperature closed_form cvd 0 1000 = Inl IndexError"
proof -
  have l: "1 < length (closed_form (Eq 100 (A cvd) (B cvd) (C cvd)))"
    using cvd_init by (rule closed_form_length) simp
  have n: "\<not> 1 < length (closed_form (Eq 0 (A cvd) (B cvd) (C cvd)))"
    by simp
  show ?thesis
    using temperature_out_of_range [of closed_form 100 cvd 1000]
      temperature_out_of_range [of closed_form 0 cvd 1000]
      l n closed_form_sound no_real_root_100_1000
    by simp
qed

section \<open>The script\<close>

text \<open>
  C9. Run without arguments, the program constructs the model for the default standard
  DIN43760 with subzero disabled, evaluates the reading \<open>r0 = 500\<close>, \<open>r_measured = 200\<close>
  and prints two lines, both numbers formatted by \<^verbatim>\<open>%g\<close> with no padding:
  \<^verbatim>\<open>Resistance = 200\<close>, then \<^verbatim>\<open>Temperature = \<close> followed by the element at index 1 of the
  solver's list at 200, which prints as \<^verbatim>\<open>-150.183\<close> when it is the negative solution of
  the equation and as \<^verbatim>\<open>6885.91\<close> when it is the positive one. The solver is assumed
  sound and to return two solutions or more for this equation.
\<close>

theorem main_output:
  assumes "solver_sound solve" "1 < length (solve (Eq 500 (A cvd) (B cvd) (C cvd)))"
  shows "init ''DIN43760'' False = Inr cvd \<and>
         temperature solve cvd 500 200 = Inr ((solve (Eq 500 (A cvd) (B cvd) (C cvd)) ! 1) 200) \<and>
         main solve =
           ([''Resistance = 200'',
             ''Temperature = '' @
               (if Re ((solve (Eq 500 (A cvd) (B cvd) (C cvd)) ! 1) 200) < 0 then ''-150.183''
                else ''6885.91'')], None)"
  using cvd_init' temperature_second [of solve 500 cvd 200, OF assms(2)] main_lines [OF assms]
  by simp

text \<open>
  The script with the closed forms in each order: the larger root second, then the
  smaller root second.
\<close>

theorem main_output_witness:
  "solver_sound closed_form_rev \<and>
   1 < length (closed_form_rev (Eq 500 (A cvd) (B cvd) (C cvd))) \<and>
   main closed_form_rev = ([''Resistance = 200'', ''Temperature = 6885.91''], None) \<and>
   solver_sound closed_form \<and>
   1 < length (closed_form (Eq 500 (A cvd) (B cvd) (C cvd))) \<and>
   main closed_form = ([''Resistance = 200'', ''Temperature = -150.183''], None)"
proof -
  have l: "1 < length (closed_form (Eq 500 (A cvd) (B cvd) (C cvd)))"
    using cvd_init by (rule closed_form_length) simp
  have lr: "1 < length (closed_form_rev (Eq 500 (A cvd) (B cvd) (C cvd)))"
    using cvd_init by (rule closed_form_rev_length) simp
  have "main closed_form = ([''Resistance = 200'', ''Temperature = -150.183''], None)"
    using main_output [OF closed_form_sound l] script_closed_form(2) by simp
  moreover have "main closed_form_rev = ([''Resistance = 200'', ''Temperature = 6885.91''], None)"
    using main_output [OF closed_form_rev_sound lr] script_closed_form_rev(2) by simp
  ultimately show ?thesis
    using closed_form_sound closed_form_rev_sound l lr by simp
qed

section \<open>The root that is returned\<close>

text \<open>
  The statements of this section are about the solver in the order of the program's
  solver, \<open>sympy_solve\<close>: the element at index 1 is the larger root of the quadratic, not
  the one in the rated range of the device.
\<close>

text \<open>
  C1. The claim is that the value returned is the physically valid root, between -200
  and 850 degrees. At the script's own reading, \<open>r0 = 500\<close> and \<open>r_measured = 200\<close> with the
  default model, the program returns the root 6885.91, while the equation has a real
  solution in the rated range (-150.183).
\<close>

theorem script_reading_out_of_range:
  "\<exists>t. temperature sympy_solve cvd 500 200 = Inr (of_real t) \<and>
        6885.905 < t \<and> t < 6885.915 \<and>
        real_root_in_range (Eq 500 (A cvd) (B cvd) (C cvd)) 200"
proof -
  define z where "z = (closed_form_rev (Eq 500 (A cvd) (B cvd) (C cvd)) ! 1) 200"
  have l: "1 < length (closed_form_rev (Eq 500 (A cvd) (B cvd) (C cvd)))"
    using cvd_init by (rule closed_form_rev_length) simp
  have h: "holds (Eq 500 (A cvd) (B cvd) (C cvd)) 200 z"
    unfolding z_def using closed_form_rev_sound l by (rule temperature_holds)
  then have "z \<in> \<real>" by (rule script_reading_real)
  then have zr: "z = of_real (Re z)" by (simp add: complex_is_Real_iff complex_eq_iff)
  then have hr: "holds (Eq 500 (A cvd) (B cvd) (C cvd)) 200 (of_real (Re z))"
    using h by simp
  have "0 < Re z" unfolding z_def by (rule script_closed_form_rev(2))
  then have b: "6885.905 < Re z \<and> Re z < 6885.915"
    using script_roots [OF hr] by simp
  have "temperature sympy_solve cvd 500 200 = temperature closed_form_rev cvd 500 200"
    using cvd_init' by (rule sympy_solve_quadratic) simp
  also have "\<dots> = Inr z" unfolding z_def by (rule script_closed_form_rev(1))
  finally have "temperature sympy_solve cvd 500 200 = Inr (of_real (Re z))"
    using zr by simp
  then show ?thesis using b script_in_range_root by blast
qed

text \<open>
  C4. The claim is that \<^verbatim>\<open>temperature(r0, r0)\<close> is 0 for the three standards with subzero
  disabled. The program returns the other root of the quadratic, \<open>- A / B\<close>, which is
  above 6000 degrees for every standard and every \<open>r0 > 0\<close>.
\<close>

theorem temperature_at_r0:
  assumes "init standard False = Inr self" "0 < r0"
  shows "temperature sympy_solve self r0 r0 = Inr (of_real (- A self / B self)) \<and>
         6000 < - A self / B self"
  using sympy_solve_quadratic [OF assms] temperature_closed_form_rev_at_r0 [OF assms]
  by simp

text \<open>The default model at \<open>r0 = r_measured = 500\<close>.\<close>

theorem temperature_at_r0_witness:
  "init ''DIN43760'' False = Inr cvd \<and> (0 :: real) < 500 \<and>
   temperature sympy_solve cvd 500 500 = Inr (of_real (- A cvd / B cvd)) \<and>
   6000 < - A cvd / B cvd"
proof -
  have p: "(0 :: real) < 500" by simp
  show ?thesis using temperature_at_r0 [OF cvd_init' p] cvd_init' by simp
qed

text \<open>
  C5. The claim is that the result increases strictly with the measured resistance.
  With subzero disabled and \<open>r0 > 0\<close> the result of the program decreases strictly,
  wherever the roots are real.
\<close>

theorem temperature_decreasing:
  assumes "init standard False = Inr self" "0 < r0" "r1 < r2" "0 \<le> discriminant self r0 r2"
  shows "\<exists>t1 t2. temperature sympy_solve self r0 r1 = Inr (of_real t1) \<and>
           temperature sympy_solve self r0 r2 = Inr (of_real t2) \<and> t2 < t1"
  using temperature_closed_form_rev_antimono [OF assms]
  by (simp only: sympy_solve_quadratic [OF assms(1,2)])

text \<open>The default model at \<open>r0 = 500\<close> and the resistances 200 and 500.\<close>

theorem temperature_decreasing_witness:
  "init ''DIN43760'' False = Inr cvd \<and> (0 :: real) < 500 \<and> (200 :: real) < 500 \<and>
   0 \<le> discriminant cvd 500 500 \<and>
   (\<exists>t1 t2. temperature sympy_solve cvd 500 200 = Inr (of_real t1) \<and>
      temperature sympy_solve cvd 500 500 = Inr (of_real t2) \<and> t2 < t1)"
proof -
  have p: "(0 :: real) < 500" and q: "(200 :: real) < 500" by simp_all
  have d: "0 \<le> discriminant cvd 500 500" by (simp add: discriminant_def)
  show ?thesis using temperature_decreasing [OF cvd_init' p q d] cvd_init' d by simp
qed

text \<open>
  C6. The claim is that \<^verbatim>\<open>temperature\<close> recovers \<open>t\<close> from the resistance the forward
  polynomial gives at \<open>t\<close>. With subzero disabled, \<open>r0 > 0\<close> and \<open>t\<close> between 0 and 850 the
  program returns the other root, \<open>- A / B - t\<close>, more than 4000 degrees away from \<open>t\<close>.
\<close>

theorem round_trip_other_root:
  assumes "init standard False = Inr self" "0 < r0" "0 \<le> t" "t \<le> 850"
  shows "temperature sympy_solve self r0 (resistance self r0 t)
           = Inr (of_real (- A self / B self - t)) \<and>
         4000 < \<bar>(- A self / B self - t) - t\<bar>"
proof -
  have c: "C self = 0" and b: "B self < 0" using init_quadratic [OF assms(1)] by simp_all
  have n: "r0 \<noteq> 0" using assms(2) by simp
  have s: "0 < A self + 2 * B self * t" using assms(1,3,4) by (rule init_slope)
  define r where "r = resistance self r0 t"
  have d: "discriminant self r0 r = (r0 * (A self + 2 * B self * t)) ^ 2"
    by (simp add: discriminant_def r_def resistance_def c power2_eq_square algebra_simps)
  have "0 \<le> r0 * (A self + 2 * B self * t)" using assms(2) s by simp
  then have sq: "sqrt (discriminant self r0 r) = r0 * (A self + 2 * B self * t)"
    unfolding d by simp
  have d0: "0 \<le> discriminant self r0 r" unfolding d by simp
  have "temperature sympy_solve self r0 r = Inr (of_real
      ((- (r0 * A self) - sqrt (discriminant self r0 r)) / (2 * (r0 * B self))))"
    using temperature_closed_form_rev_real [OF assms(1) n d0]
    by (simp only: sympy_solve_quadratic [OF assms(1,2)])
  moreover have "(- (r0 * A self) - r0 * (A self + 2 * B self * t)) / (2 * (r0 * B self))
                   = - A self / B self - t"
    using n b by (simp add: field_simps)
  ultimately have v: "temperature sympy_solve self r0 r = Inr (of_real (- A self / B self - t))"
    by (simp only: sq)
  have "6000 < - A self / B self" using assms(1) by (rule init_ratio)
  then have "4000 < \<bar>(- A self / B self - t) - t\<bar>" using assms(3,4) by simp
  then show ?thesis using v by (simp only: r_def simp_thms)
qed

text \<open>The default model at \<open>r0 = 500\<close> and \<open>t = 100\<close>.\<close>

theorem round_trip_other_root_witness:
  "init ''DIN43760'' False = Inr cvd \<and> (0 :: real) < 500 \<and> (0 :: real) \<le> 100 \<and>
   (100 :: real) \<le> 850 \<and>
   temperature sympy_solve cvd 500 (resistance cvd 500 100)
     = Inr (of_real (- A cvd / B cvd - 100)) \<and>
   4000 < \<bar>(- A cvd / B cvd - 100) - 100\<bar>"
proof -
  have p: "(0 :: real) < 500" and l: "(0 :: real) \<le> 100" and u: "(100 :: real) \<le> 850"
    by simp_all
  show ?thesis using round_trip_other_root [OF cvd_init' p l u] cvd_init' by simp
qed

end
